theory Spec2Isabelle
  imports Main "HOL-Library.Word"
begin

unbundle bit_operations_syntax

section \<open>Format model: integers, records, constants\<close>

text \<open>
  Go's \<open>byte\<close>, \<open>uint16\<close> and \<open>uint32\<close> are words of that width; \<open>int64\<close> offsets and
  \<open>int\<close> lengths are modelled as \<open>int\<close> and \<open>nat\<close> (they count bytes of a file or of a
  slice held in memory and stay far below \<open>2 ^ 63\<close>). Every conversion to a narrower
  unsigned type (\<open>uint16(len(name))\<close>, \<open>uint32(len(data))\<close>, \<open>uint32(offset)\<close>) is a
  truncation and is written \<open>of_nat\<close> or \<open>word_of_int\<close> into the word type.
  A Go \<open>string\<close> is a sequence of bytes: \<open>string\<close> here, one \<open>char\<close> per byte.
\<close>

type_synonym byte = "8 word"
type_synonym uint16 = "16 word"
type_synonym uint32 = "32 word"

definition EOCDMinSize :: int where
  "EOCDMinSize = 22"

definition LocalFileHeaderSignature :: uint32 where
  "LocalFileHeaderSignature = 0x04034b50"

definition CentralDirectorySignature :: uint32 where
  "CentralDirectorySignature = 0x02014b50"

text \<open>
  Modelled from the spec: the constant \<open>EndOfCentralDirectorySignature\<close> that
  \<open>Close\<close> writes is declared in no file under src/. The spec's format table gives the
  trailer signature \<open>0x06054b50\<close>, the little-endian reading of the four bytes
  \<open>50 4b 05 06\<close> that \<open>findEOCD\<close> searches for.
\<close>

definition EndOfCentralDirectorySignature :: uint32 where
  "EndOfCentralDirectorySignature = 0x06054b50"

text \<open>
  The three header structs. Field names carry a prefix (\<open>lh_\<close>, \<open>eocd_\<close>, \<open>cd_\<close>)
  because the structs share field names and record fields live in one name space.
\<close>

record LocalFileHeader =
  lh_VersionNeeded :: uint16
  lh_Flags :: uint16
  lh_CompressionMethod :: uint16
  lh_LastModTime :: uint16
  lh_LastModDate :: uint16
  lh_CRC32 :: uint32
  lh_CompressedSize :: uint32
  lh_UncompressedSize :: uint32
  lh_FilenameLength :: uint16
  lh_ExtraFieldLength :: uint16
  lh_Filename :: string
  lh_ExtraField :: "byte list"

record EndOfCentralDirectory =
  eocd_DiskNumber :: uint16
  eocd_DiskWithCDStart :: uint16
  eocd_EntriesOnDisk :: uint16
  eocd_TotalEntries :: uint16
  eocd_CentralDirSize :: uint32
  eocd_CentralDirOffset :: uint32
  eocd_CommentLength :: uint16
  eocd_Comment :: string

record CentralDirectoryHeader =
  cd_VersionMadeBy :: uint16
  cd_VersionNeeded :: uint16
  cd_Flags :: uint16
  cd_CompressionMethod :: uint16
  cd_LastModTime :: uint16
  cd_LastModDate :: uint16
  cd_CRC32 :: uint32
  cd_CompressedSize :: uint32
  cd_UncompressedSize :: uint32
  cd_FilenameLength :: uint16
  cd_ExtraFieldLength :: uint16
  cd_CommentLength :: uint16
  cd_DiskNumberStart :: uint16
  cd_InternalAttributes :: uint16
  cd_ExternalAttributes :: uint32
  cd_LocalHeaderOffset :: uint32
  cd_Filename :: string
  cd_ExtraField :: "byte list"
  cd_Comment :: string

subsection \<open>Errors\<close>

text \<open>
  The source builds its errors with \<open>errors.New\<close> and \<open>fmt.Errorf\<close>; each constructor
  below is one of those messages, or an error handed up from the standard library
  (\<open>io.EOF\<close>, \<open>io.ErrUnexpectedEOF\<close>, a failed seek or write, a corrupt deflate stream).
\<close>

datatype error =
    ErrNameEmpty
  | ErrNameTooLong
  | ErrDataNil
  | ErrFileTooSmall
  | ErrEOCDNotFound
  | ErrInvalidSignature uint32
  | ErrInvalidLocalSignature uint32
  | ErrSizeMismatch nat nat
  | ErrEOF
  | ErrUnexpectedEOF
  | ErrSeek
  | ErrWrite
  | ErrCorruptInput

datatype error_kind = InvalidArgument | FormatError | UnsupportedFeature | IOError


subsection \<open>Little-endian encoding (encoding/binary)\<close>

definition put16 :: "uint16 \<Rightarrow> byte list" where
  "put16 v = [ucast v, ucast (drop_bit 8 v)]"

definition put32 :: "uint32 \<Rightarrow> byte list" where
  "put32 v = [ucast v, ucast (drop_bit 8 v), ucast (drop_bit 16 v), ucast (drop_bit 24 v)]"

definition get16 :: "byte list \<Rightarrow> nat \<Rightarrow> uint16" where
  "get16 b i = ucast (b ! i) OR push_bit 8 (ucast (b ! (i + 1)))"

definition get32 :: "byte list \<Rightarrow> nat \<Rightarrow> uint32" where
  "get32 b i = ucast (b ! i) OR push_bit 8 (ucast (b ! (i + 1)))
     OR push_bit 16 (ucast (b ! (i + 2))) OR push_bit 24 (ucast (b ! (i + 3)))"

text \<open>\<open>[]byte(s)\<close> and \<open>string(b)\<close>: the same bytes under the other type.\<close>

definition bytes_of :: "string \<Rightarrow> byte list" where
  "bytes_of s = map of_char s"

definition string_of :: "byte list \<Rightarrow> string" where
  "string_of b = map (\<lambda>x. char_of (unat x)) b"

section \<open>Collaborators from the standard library\<close>

subsection \<open>hash/crc32\<close>

text \<open>\<open>crc32.ChecksumIEEE\<close>: the reflected CRC-32 with polynomial \<open>0xEDB88320\<close>, bit by bit.\<close>

definition crc_bit :: "uint32 \<Rightarrow> uint32" where
  "crc_bit c = (if bit c 0 then drop_bit 1 c XOR 0xEDB88320 else drop_bit 1 c)"

definition crc_byte :: "byte \<Rightarrow> uint32 \<Rightarrow> uint32" where
  "crc_byte b c = (crc_bit ^^ 8) (c XOR ucast b)"

definition ChecksumIEEE :: "byte list \<Rightarrow> uint32" where
  "ChecksumIEEE data = NOT (fold crc_byte data 0xFFFFFFFF)"

subsection \<open>unicode/utf8\<close>

text \<open>
  \<open>utf8.ValidString\<close>: the string is a sequence of well-formed UTF-8 encodings: no
  overlong forms, no surrogate halves, nothing above \<open>U+10FFFF\<close>.
\<close>

definition cont :: "nat \<Rightarrow> bool" where
  "cont b = (0x80 \<le> b \<and> b \<le> 0xBF)"

fun utf8_valid :: "nat list \<Rightarrow> bool" where
  "utf8_valid [] = True"
| "utf8_valid (a # r) =
    (if a < 0x80 then utf8_valid r
     else if 0xC2 \<le> a \<and> a \<le> 0xDF then
       (case r of b # r1 \<Rightarrow> cont b \<and> utf8_valid r1 | _ \<Rightarrow> False)
     else if 0xE0 \<le> a \<and> a \<le> 0xEF then
       (case r of b # c # r2 \<Rightarrow>
          (if a = 0xE0 then 0xA0 else 0x80) \<le> b \<and> b \<le> (if a = 0xED then 0x9F else 0xBF)
          \<and> cont c \<and> utf8_valid r2
        | _ \<Rightarrow> False)
     else if 0xF0 \<le> a \<and> a \<le> 0xF4 then
       (case r of b # c # d # r3 \<Rightarrow>
          (if a = 0xF0 then 0x90 else 0x80) \<le> b \<and> b \<le> (if a = 0xF4 then 0x8F else 0xBF)
          \<and> cont c \<and> cont d \<and> utf8_valid r3
        | _ \<Rightarrow> False)
     else False)"

definition isValidUTF8 :: "string \<Rightarrow> bool" where
  "isValidUTF8 s = utf8_valid (map of_char s)"

subsection \<open>time\<close>

text \<open>
  What \<open>timeToMSDos\<close> reads of a \<open>time.Time\<close>: the results of \<open>Year()\<close>, \<open>Month()\<close>,
  \<open>Day()\<close>, \<open>Hour()\<close>, \<open>Minute()\<close> and \<open>Second()\<close>. The year is any integer; the
  others are never negative, and \<open>calendar\<close> states the ranges the accessors keep.
\<close>

record Time =
  Year :: int
  Month :: nat
  Day :: nat
  Hour :: nat
  Minute :: nat
  Second :: nat

definition calendar :: "Time \<Rightarrow> bool" where
  "calendar t = (1 \<le> Month t \<and> Month t \<le> 12 \<and> 1 \<le> Day t \<and> Day t \<le> 31
     \<and> Hour t \<le> 23 \<and> Minute t \<le> 59 \<and> Second t \<le> 59)"

subsection \<open>io.Writer\<close>

text \<open>
  The sink the writer is bound to. \<open>written\<close> is what has reached it; \<open>room\<close> is how
  many more bytes it takes before a write fails (\<open>None\<close>: it never fails, as a
  \<open>bytes.Buffer\<close>). A failing write delivers what fits and returns an error.
\<close>

record sink =
  written :: "byte list"
  room :: "nat option"

definition Write :: "sink \<Rightarrow> byte list \<Rightarrow> error option \<times> sink" where
  "Write s b =
     (case room s of
        None \<Rightarrow> (None, s\<lparr>written := written s @ b\<rparr>)
      | Some r \<Rightarrow>
          if length b \<le> r then (None, s\<lparr>written := written s @ b, room := Some (r - length b)\<rparr>)
          else (Some ErrWrite, s\<lparr>written := written s @ take r b, room := Some 0\<rparr>))"

text \<open>
  A run of writes, each followed by \<open>if err != nil { return err }\<close>: the first failure
  ends the run and the later chunks are not written.
\<close>

fun write_all :: "sink \<Rightarrow> byte list list \<Rightarrow> error option \<times> sink" where
  "write_all s [] = (None, s)"
| "write_all s (b # bs) =
     (case Write s b of
        (Some e, s') \<Rightarrow> (Some e, s')
      | (None, s') \<Rightarrow> write_all s' bs)"

subsection \<open>os.File, opened for reading\<close>

text \<open>
  A regular file opened for reading: its content and the seek cursor. \<open>Seek\<close> is
  \<open>file.Seek(off, 0)\<close>; it fails on a negative offset and moves the cursor anywhere
  else, also past the end. \<open>Read\<close> is \<open>file.Read(buf)\<close> on a fresh zeroed buffer with
  \<open>len(buf) = n\<close>, and returns the buffer: with \<open>n = 0\<close> it succeeds without reading,
  at the end of the file it fails with \<open>io.EOF\<close>, and a read that reaches the end
  fills only the front of the buffer. \<open>binary_Read\<close> is \<open>binary.Read\<close>, which insists
  on all \<open>n\<close> bytes (\<open>io.ReadFull\<close>). \<open>file.Stat()\<close> on the open file is taken to
  succeed, with \<open>Size()\<close> the length of the content.
\<close>

record File =
  content :: "byte list"
  cursor :: nat

definition Seek :: "File \<Rightarrow> int \<Rightarrow> error option \<times> File" where
  "Seek f off = (if off < 0 then (Some ErrSeek, f) else (None, f\<lparr>cursor := nat off\<rparr>))"

definition Read :: "File \<Rightarrow> nat \<Rightarrow> (error + byte list) \<times> File" where
  "Read f n =
     (if n = 0 then (Inr [], f)
      else if length (content f) \<le> cursor f then (Inl ErrEOF, f)
      else (let got = take n (drop (cursor f) (content f))
            in (Inr (got @ replicate (n - length got) 0), f\<lparr>cursor := cursor f + length got\<rparr>)))"

definition binary_Read :: "File \<Rightarrow> nat \<Rightarrow> (error + byte list) \<times> File" where
  "binary_Read f n =
     (if n = 0 then (Inr [], f)
      else if length (content f) \<le> cursor f then (Inl ErrEOF, f)
      else if length (content f) < cursor f + n
        then (Inl ErrUnexpectedEOF, f\<lparr>cursor := length (content f)\<rparr>)
      else (Inr (take n (drop (cursor f) (content f))), f\<lparr>cursor := cursor f + n\<rparr>))"

subsection \<open>bytes and strings\<close>

text \<open>
  \<open>bytes.LastIndex(buf, sep)\<close>: the index of the last instance of \<open>sep\<close> in \<open>buf\<close>,
  or \<open>-1\<close>. \<open>last_from buf sep k\<close> tries the start positions \<open>k - 1\<close> down to \<open>0\<close>.
\<close>

fun last_from :: "byte list \<Rightarrow> byte list \<Rightarrow> nat \<Rightarrow> int" where
  "last_from buf sep 0 = -1"
| "last_from buf sep (Suc i) =
     (if take (length sep) (drop i buf) = sep then int i else last_from buf sep i)"

definition LastIndex :: "byte list \<Rightarrow> byte list \<Rightarrow> int" where
  "LastIndex buf sep =
     (if length buf < length sep then -1
      else last_from buf sep (Suc (length buf - length sep)))"

definition HasPrefix :: "string \<Rightarrow> string \<Rightarrow> bool" where
  "HasPrefix s p = (take (length p) s = p)"

section \<open>Archive writer\<close>

record fileRecord =
  fr_name :: string
  fr_compressedSize :: uint32
  fr_uncompressedSize :: uint32
  fr_crc32 :: uint32
  fr_compressionMethod :: uint16
  fr_modTime :: uint16
  fr_modDate :: uint16
  fr_localHeaderOffset :: int
  fr_versionMadeBy :: uint16
  fr_versionNeeded :: uint16
  fr_flags :: uint16
  fr_extraField :: "byte list"
  fr_comment :: string
  fr_diskNumberStart :: uint16
  fr_internalAttrs :: uint16
  fr_externalAttrs :: uint32

record ZipWriter =
  zw_w :: sink
  zw_files :: "fileRecord list"
  zw_offset :: int

definition NewZipWriter :: "sink \<Rightarrow> ZipWriter" where
  "NewZipWriter s = \<lparr>zw_w = s, zw_files = [], zw_offset = 0\<rparr>"

text \<open>
  \<open>timeToMSDos\<close> computes in \<open>int\<close> and converts each result with \<open>uint16(...)\<close>,
  which keeps the low 16 bits.
\<close>

definition timeToMSDos :: "Time \<Rightarrow> uint16 \<times> uint16" where
  "timeToMSDos t =
     (let year = Year t - 1980;
          year = (if year < 0 then 0 else year);
          dosDate = word_of_int (push_bit 9 year OR push_bit 5 (int (Month t)) OR int (Day t));
          dosTime = word_of_int (push_bit 11 (int (Hour t)) OR push_bit 5 (int (Minute t))
                      OR int (Second t div 2))
      in (dosTime, dosDate))"

text \<open>
  \<open>AddFile\<close>. \<open>now\<close> is the value of \<open>time.Now()\<close>; the payload is \<open>None\<close> for a nil
  slice. The result is the returned error (\<open>None\<close> for nil) and the writer as the call
  leaves it: after a failed write the sink has the bytes that got through, and neither
  the record list nor the offset has changed.
\<close>

definition AddFile :: "Time \<Rightarrow> ZipWriter \<Rightarrow> string \<Rightarrow> byte list option \<Rightarrow> error option \<times> ZipWriter" where
  "AddFile now zw name data =
     (if name = [] then (Some ErrNameEmpty, zw)
      else if length name > 65535 then (Some ErrNameTooLong, zw)
      else case data of
        None \<Rightarrow> (Some ErrDataNil, zw)
      | Some d \<Rightarrow>
          (let crc = ChecksumIEEE d;
               headerOffset = zw_offset zw;
               flags = (if isValidUTF8 name then 0 OR 0x0800 else 0);
               (modTime, modDate) = timeToMSDos now
           in case write_all (zw_w zw)
                 [put32 LocalFileHeaderSignature,
                  put16 20,
                  put16 flags,
                  put16 0,
                  put16 modTime,
                  put16 modDate,
                  put32 crc,
                  put32 (of_nat (length d)),
                  put32 (of_nat (length d)),
                  put16 (of_nat (length name)),
                  put16 0,
                  bytes_of name,
                  d] of
                (Some e, s) \<Rightarrow> (Some e, zw\<lparr>zw_w := s\<rparr>)
              | (None, s) \<Rightarrow>
                  (let record = \<lparr>fr_name = name,
                         fr_compressedSize = of_nat (length d),
                         fr_uncompressedSize = of_nat (length d),
                         fr_crc32 = crc,
                         fr_compressionMethod = 0,
                         fr_modTime = modTime,
                         fr_modDate = modDate,
                         fr_localHeaderOffset = headerOffset,
                         fr_versionMadeBy = 0x0314,
                         fr_versionNeeded = 20,
                         fr_flags = 0x0800,
                         fr_extraField = [],
                         fr_comment = [],
                         fr_diskNumberStart = 0,
                         fr_internalAttrs = 0,
                         fr_externalAttrs = 0x81A40000\<rparr>
                   in (None, zw\<lparr>zw_w := s,
                         zw_files := zw_files zw @ [record],
                         zw_offset := zw_offset zw + (4 + 26 + int (length name) + int (length d))\<rparr>))))"

text \<open>
  The loop of \<open>Close\<close> over \<open>zw.files\<close>: one directory record per file, the offset
  advanced after each; it returns the error, the sink and the offset reached.
\<close>

fun write_directory :: "sink \<Rightarrow> int \<Rightarrow> fileRecord list \<Rightarrow> error option \<times> sink \<times> int" where
  "write_directory s off [] = (None, s, off)"
| "write_directory s off (file # rest) =
     (case write_all s
        [put32 CentralDirectorySignature,
         put16 (fr_versionMadeBy file),
         put16 (fr_versionNeeded file),
         put16 (fr_flags file),
         put16 (fr_compressionMethod file),
         put16 (fr_modTime file),
         put16 (fr_modDate file),
         put32 (fr_crc32 file),
         put32 (fr_compressedSize file),
         put32 (fr_uncompressedSize file),
         put16 (of_nat (length (fr_name file))),
         put16 0,
         put16 0,
         put16 (fr_diskNumberStart file),
         put16 (fr_internalAttrs file),
         put32 (fr_externalAttrs file),
         put32 (word_of_int (fr_localHeaderOffset file)),
         bytes_of (fr_name file)] of
        (Some e, s') \<Rightarrow> (Some e, s', off)
      | (None, s') \<Rightarrow> write_directory s' (off + (4 + 42 + int (length (fr_name file)))) rest)"

definition Close :: "ZipWriter \<Rightarrow> error option \<times> ZipWriter" where
  "Close zw =
     (let centralDirOffset = zw_offset zw
      in case write_directory (zw_w zw) (zw_offset zw) (zw_files zw) of
           (Some e, s, off) \<Rightarrow> (Some e, zw\<lparr>zw_w := s, zw_offset := off\<rparr>)
         | (None, s, off) \<Rightarrow>
             (let centralDirSize = off - centralDirOffset
              in case write_all s
                   [put32 EndOfCentralDirectorySignature,
                    put16 0,
                    put16 0,
                    put16 (of_nat (length (zw_files zw))),
                    put16 (of_nat (length (zw_files zw))),
                    put32 (word_of_int centralDirSize),
                    put32 (word_of_int centralDirOffset),
                    put16 0] of
                   (e, s') \<Rightarrow> (e, zw\<lparr>zw_w := s', zw_offset := off\<rparr>)))"

section \<open>Archive reader (zip/zip.go)\<close>

definition findEOCD :: "File \<Rightarrow> (error + int) \<times> File" where
  "findEOCD f =
     (let fileSize = int (length (content f))
      in if fileSize < EOCDMinSize then (Inl ErrFileTooSmall, f)
         else
           (let maxCommentSize = 65535;
                searchStart = fileSize - EOCDMinSize - maxCommentSize;
                searchStart = (if searchStart < 0 then 0 else searchStart);
                bufSize = fileSize - searchStart
            in case Seek f searchStart of
                 (Some e, f1) \<Rightarrow> (Inl e, f1)
               | (None, f1) \<Rightarrow>
                   (case Read f1 (nat bufSize) of
                      (Inl e, f2) \<Rightarrow> (Inl e, f2)
                    | (Inr buf, f2) \<Rightarrow>
                        (let signature = [0x50, 0x4b, 0x05, 0x06];
                             sigPos = LastIndex buf signature
                         in if sigPos > 0 then (Inr (searchStart + sigPos), f2)
                            else (Inl ErrEOCDNotFound, f2)))))"

text \<open>
  \<open>parseEOCD\<close> decodes the seven fields from the 18 bytes after the signature; the
  \<open>binary.Read\<close> calls on that in-memory reader cannot fail.
\<close>

definition parseEOCD :: "File \<Rightarrow> int \<Rightarrow> (error + EndOfCentralDirectory) \<times> File" where
  "parseEOCD f offset =
     (case Seek f offset of
        (Some e, f1) \<Rightarrow> (Inl e, f1)
      | (None, f1) \<Rightarrow>
          (case Read f1 (nat EOCDMinSize) of
             (Inl e, f2) \<Rightarrow> (Inl e, f2)
           | (Inr buf, f2) \<Rightarrow>
               (let r = drop 4 buf;
                    eocd = \<lparr>eocd_DiskNumber = get16 r 0,
                            eocd_DiskWithCDStart = get16 r 2,
                            eocd_EntriesOnDisk = get16 r 4,
                            eocd_TotalEntries = get16 r 6,
                            eocd_CentralDirSize = get32 r 8,
                            eocd_CentralDirOffset = get32 r 12,
                            eocd_CommentLength = get16 r 16,
                            eocd_Comment = []\<rparr>
                in if eocd_CommentLength eocd > 0
                   then (case Read f2 (unat (eocd_CommentLength eocd)) of
                           (Inl e, f3) \<Rightarrow> (Inl e, f3)
                         | (Inr commentBuf, f3) \<Rightarrow>
                             (Inr (eocd\<lparr>eocd_Comment := string_of commentBuf\<rparr>), f3))
                   else (Inr eocd, f2))))"

definition readCentralDirectoryEntry ::
    "File \<Rightarrow> int \<Rightarrow> (error + CentralDirectoryHeader \<times> int) \<times> File" where
  "readCentralDirectoryEntry f offset =
     (case Seek f offset of
        (Some e, f1) \<Rightarrow> (Inl e, f1)
      | (None, f1) \<Rightarrow>
     (case binary_Read f1 4 of
        (Inl e, f2) \<Rightarrow> (Inl e, f2)
      | (Inr sb, f2) \<Rightarrow>
     (let signature = get32 sb 0
      in if signature \<noteq> CentralDirectorySignature then (Inl (ErrInvalidSignature signature), f2)
         else
     (case binary_Read f2 42 of
        (Inl e, f3) \<Rightarrow> (Inl e, f3)
      | (Inr fixed, f3) \<Rightarrow>
     (let cd = \<lparr>cd_VersionMadeBy = get16 fixed 0,
                cd_VersionNeeded = get16 fixed 2,
                cd_Flags = get16 fixed 4,
                cd_CompressionMethod = get16 fixed 6,
                cd_LastModTime = get16 fixed 8,
                cd_LastModDate = get16 fixed 10,
                cd_CRC32 = get32 fixed 12,
                cd_CompressedSize = get32 fixed 16,
                cd_UncompressedSize = get32 fixed 20,
                cd_FilenameLength = get16 fixed 24,
                cd_ExtraFieldLength = get16 fixed 26,
                cd_CommentLength = get16 fixed 28,
                cd_DiskNumberStart = get16 fixed 30,
                cd_InternalAttributes = get16 fixed 32,
                cd_ExternalAttributes = get32 fixed 34,
                cd_LocalHeaderOffset = get32 fixed 38,
                cd_Filename = [],
                cd_ExtraField = [],
                cd_Comment = []\<rparr>
      in case Read f3 (unat (cd_FilenameLength cd)) of
           (Inl e, f4) \<Rightarrow> (Inl e, f4)
         | (Inr filenameBuf, f4) \<Rightarrow>
     (let cd = cd\<lparr>cd_Filename := string_of filenameBuf\<rparr>
      in case Read f4 (unat (cd_ExtraFieldLength cd)) of
           (Inl e, f5) \<Rightarrow> (Inl e, f5)
         | (Inr extraFieldBuf, f5) \<Rightarrow>
     (let cd = cd\<lparr>cd_ExtraField := extraFieldBuf\<rparr>
      in case Read f5 (unat (cd_CommentLength cd)) of
           (Inl e, f6) \<Rightarrow> (Inl e, f6)
         | (Inr commentBuf, f6) \<Rightarrow>
     (let cd = cd\<lparr>cd_Comment := string_of commentBuf\<rparr>;
          nextOffset = offset + 4 + 42
            + int (unat (cd_FilenameLength cd + cd_ExtraFieldLength cd + cd_CommentLength cd))
      in (Inr (cd, nextOffset), f6)))))))))"

text \<open>
  \<open>readLocalFileHeader\<close> drops the results of its \<open>Seek\<close> and of the read of the
  signature: after a failed seek the cursor stays where it was, and after a failed read
  the signature variable keeps its zero value.
\<close>

definition readLocalFileHeader ::
    "File \<Rightarrow> int \<Rightarrow> (error + LocalFileHeader \<times> int) \<times> File" where
  "readLocalFileHeader f offset =
     (let f1 = snd (Seek f offset);
          (sr, f2) = binary_Read f1 4;
          signature = (case sr of Inl e \<Rightarrow> 0 | Inr sb \<Rightarrow> get32 sb 0)
      in if signature \<noteq> LocalFileHeaderSignature
         then (Inl (ErrInvalidLocalSignature signature), f2)
         else
     (case binary_Read f2 26 of
        (Inl e, f3) \<Rightarrow> (Inl e, f3)
      | (Inr fixed, f3) \<Rightarrow>
     (let lh = \<lparr>lh_VersionNeeded = get16 fixed 0,
                lh_Flags = get16 fixed 2,
                lh_CompressionMethod = get16 fixed 4,
                lh_LastModTime = get16 fixed 6,
                lh_LastModDate = get16 fixed 8,
                lh_CRC32 = get32 fixed 10,
                lh_CompressedSize = get32 fixed 14,
                lh_UncompressedSize = get32 fixed 18,
                lh_FilenameLength = get16 fixed 22,
                lh_ExtraFieldLength = get16 fixed 24,
                lh_Filename = [],
                lh_ExtraField = []\<rparr>
      in case Read f3 (unat (lh_FilenameLength lh)) of
           (Inl e, f4) \<Rightarrow> (Inl e, f4)
         | (Inr filenameBuf, f4) \<Rightarrow>
     (let lh = lh\<lparr>lh_Filename := string_of filenameBuf\<rparr>
      in case Read f4 (unat (lh_ExtraFieldLength lh)) of
           (Inl e, f5) \<Rightarrow> (Inl e, f5)
         | (Inr extraFieldBuf, f5) \<Rightarrow>
     (let lh = lh\<lparr>lh_ExtraField := extraFieldBuf\<rparr>
      in (Inr (lh, offset + 4 + 26
                 + int (unat (lh_FilenameLength lh + lh_ExtraFieldLength lh))), f5))))))"

text \<open>
  The size reconciliation of \<open>extractFile\<close>: the \<open>if\<close> that follows the debug prints.
\<close>

definition reconcileSizes :: "LocalFileHeader \<Rightarrow> CentralDirectoryHeader \<Rightarrow> LocalFileHeader" where
  "reconcileSizes localHeader centralDir =
     (if lh_CompressedSize localHeader = 0 \<and> (lh_Flags localHeader AND 0x0008) \<noteq> 0
      then localHeader\<lparr>lh_CompressedSize := cd_CompressedSize centralDir,
                        lh_UncompressedSize := cd_UncompressedSize centralDir\<rparr>
      else localHeader)"

text \<open>
  \<open>extractFile\<close>. \<open>inflate\<close> stands for the deflate collaborator, \<open>flate.NewReader\<close>
  read to its end by \<open>io.ReadAll\<close>: the decoded bytes or an error. The debug prints are
  left out.
\<close>

definition extractFile ::
    "(byte list \<Rightarrow> error + byte list) \<Rightarrow> File \<Rightarrow> CentralDirectoryHeader
      \<Rightarrow> (error + byte list) \<times> File" where
  "extractFile inflate f centralDir =
     (case readLocalFileHeader f (int (unat (cd_LocalHeaderOffset centralDir))) of
        (Inl e, f1) \<Rightarrow> (Inl e, f1)
      | (Inr (localHeader, dataOffset), f1) \<Rightarrow>
          (let localHeader = reconcileSizes localHeader centralDir;
               f2 = snd (Seek f1 dataOffset)
           in case Read f2 (unat (lh_CompressedSize localHeader)) of
                (Inl e, f3) \<Rightarrow> (Inl e, f3)
              | (Inr compressedData, f3) \<Rightarrow>
                  if lh_CompressionMethod localHeader = 8 then
                    (case inflate compressedData of
                       Inl e \<Rightarrow> (Inl e, f3)
                     | Inr decompressed \<Rightarrow>
                         if length decompressed \<noteq> unat (lh_UncompressedSize localHeader)
                         then (Inl (ErrSizeMismatch (length decompressed)
                                      (unat (lh_UncompressedSize localHeader))), f3)
                         else (Inr decompressed, f3))
                  else (Inr compressedData, f3)))"

text \<open>
  \<open>ReadZip\<close> returns nothing and reports on standard output; the model returns, for
  each directory entry in turn, what the loop did with it: the entry extracted (with the
  bytes, of which the source prints the count), the extraction error it printed, or the
  entry skipped. A \<open>panic\<close> ends the run: \<open>Inl\<close> of the error.
\<close>

datatype outcome =
    Extracted string "byte list"
  | ExtractError string error
  | Skipping string

fun read_entries ::
    "(byte list \<Rightarrow> error + byte list) \<Rightarrow> File \<Rightarrow> int \<Rightarrow> nat \<Rightarrow> error + outcome list" where
  "read_entries inflate f offset 0 = Inr []"
| "read_entries inflate f offset (Suc n) =
     (case readCentralDirectoryEntry f offset of
        (Inl e, f1) \<Rightarrow> Inl e
      | (Inr (centralDirectoryEntry, nextOffset), f1) \<Rightarrow>
          (let (out, f2) =
                 (if \<not> HasPrefix (cd_Filename centralDirectoryEntry) ''__MACOSX/''
                  then (case extractFile inflate f1 centralDirectoryEntry of
                          (Inl e, f2) \<Rightarrow> (ExtractError (cd_Filename centralDirectoryEntry) e, f2)
                        | (Inr data, f2) \<Rightarrow> (Extracted (cd_Filename centralDirectoryEntry) data, f2))
                  else (Skipping (cd_Filename centralDirectoryEntry), f1))
           in case read_entries inflate f2 nextOffset n of
                Inl e \<Rightarrow> Inl e
              | Inr outs \<Rightarrow> Inr (out # outs)))"

definition ReadZip :: "(byte list \<Rightarrow> error + byte list) \<Rightarrow> File \<Rightarrow> error + outcome list" where
  "ReadZip inflate f =
     (case findEOCD f of
        (Inl e, f1) \<Rightarrow> Inl e
      | (Inr eocdPos, f1) \<Rightarrow>
          (case parseEOCD f1 eocdPos of
             (Inl e, f2) \<Rightarrow> Inl e
           | (Inr eocd, f2) \<Rightarrow>
               read_entries inflate f2 (int (unat (eocd_CentralDirOffset eocd)))
                 (unat (eocd_TotalEntries eocd))))"

section \<open>Callers, sample inputs and the vocabulary of the properties\<close>

text \<open>
  The write path of the command-line entry point: a run of \<open>AddFile\<close> calls on one writer, stopped by
  the first error (where \<open>main\<close> panics). Each call comes with the clock reading it
  sees.
\<close>

fun add_files :: "ZipWriter \<Rightarrow> (Time \<times> string \<times> byte list option) list \<Rightarrow> error option \<times> ZipWriter" where
  "add_files zw [] = (None, zw)"
| "add_files zw ((now, name, data) # rest) =
     (case AddFile now zw name data of
        (Some e, zw') \<Rightarrow> (Some e, zw')
      | (None, zw') \<Rightarrow> add_files zw' rest)"

text \<open>An empty \<open>bytes.Buffer\<close> as the sink, as in the tests, and the test's timestamp.\<close>

definition buffer :: sink where
  "buffer = \<lparr>written = [], room = None\<rparr>"

definition xmas :: Time where
  "xmas = \<lparr>Year = 2023, Month = 12, Day = 25, Hour = 14, Minute = 30, Second = 45\<rparr>"


text \<open>The bit fields of the packed MS-DOS date and time words.\<close>

definition year_field :: "uint16 \<Rightarrow> nat" where
  "year_field d = unat (drop_bit 9 d)"

definition month_field :: "uint16 \<Rightarrow> nat" where
  "month_field d = unat (take_bit 4 (drop_bit 5 d))"

definition day_field :: "uint16 \<Rightarrow> nat" where
  "day_field d = unat (take_bit 5 d)"

definition hour_field :: "uint16 \<Rightarrow> nat" where
  "hour_field d = unat (drop_bit 11 d)"

definition minute_field :: "uint16 \<Rightarrow> nat" where
  "minute_field d = unat (take_bit 6 (drop_bit 5 d))"

definition second_field :: "uint16 \<Rightarrow> nat" where
  "second_field d = unat (take_bit 5 d)"

definition newyear2108 :: Time where
  "newyear2108 = \<lparr>Year = 2108, Month = 1, Day = 1, Hour = 0, Minute = 0, Second = 0\<rparr>"





text \<open>The entry name an outcome of \<open>ReadZip\<close> reports, and whether the entry was skipped.\<close>

fun outcome_name :: "outcome \<Rightarrow> string" where
  "outcome_name (Extracted n d) = n"
| "outcome_name (ExtractError n e) = n"
| "outcome_name (Skipping n) = n"

fun is_skipped :: "outcome \<Rightarrow> bool" where
  "is_skipped (Skipping n) = True"
| "is_skipped _ = False"

text \<open>
  The archive the writer produces for a run of calls on an empty buffer, opened for
  reading; and a run with one entry under \<open>__MACOSX/\<close>.
\<close>

definition archive_of :: "(Time \<times> string \<times> byte list option) list \<Rightarrow> File" where
  "archive_of calls =
     \<lparr>content = written (zw_w (snd (Close (snd (add_files (NewZipWriter buffer) calls))))),
      cursor = 0\<rparr>"

definition mac_calls :: "(Time \<times> string \<times> byte list option) list" where
  "mac_calls = [(xmas, ''__MACOSX/._a'', Some [1, 2, 3]), (xmas, ''a'', Some [4, 5])]"

text \<open>An entry whose one-byte name \<open>0xFF\<close> is not valid UTF-8.\<close>

definition latin1_calls :: "(Time \<times> string \<times> byte list option) list" where
  "latin1_calls = [(xmas, [CHR 0xFF], Some [])]"

text \<open>
  An archive of one entry \<open>a\<close> whose two payload bytes are marked with compression
  method 12 in both records.
\<close>

definition method12_archive :: "byte list" where
  "method12_archive =
     put32 LocalFileHeaderSignature @ put16 20 @ put16 0 @ put16 12 @ put16 0 @ put16 0
       @ put32 0 @ put32 2 @ put32 2 @ put16 1 @ put16 0 @ bytes_of ''a'' @ [0x42, 0x5A]
     @ put32 CentralDirectorySignature @ put16 0x0314 @ put16 20 @ put16 0 @ put16 12
       @ put16 0 @ put16 0 @ put32 0 @ put32 2 @ put32 2 @ put16 1 @ put16 0 @ put16 0
       @ put16 0 @ put16 0 @ put32 0 @ put32 0 @ bytes_of ''a''
     @ put32 EndOfCentralDirectorySignature @ put16 0 @ put16 0 @ put16 1 @ put16 1
       @ put32 47 @ put32 33 @ put16 0"

text \<open>
  A directory record with a name of 65535 bytes and an extra field of 1 byte: 46 bytes
  of signature and fixed fields, then 65536 bytes.
\<close>

definition long_record :: "byte list" where
  "long_record =
     put32 CentralDirectorySignature @ put16 0x0314 @ put16 20 @ put16 0 @ put16 0
       @ put16 0 @ put16 0 @ put32 0 @ put32 0 @ put32 0 @ put16 0xFFFF @ put16 1 @ put16 0
       @ put16 0 @ put16 0 @ put32 0 @ put32 0 @ replicate 65535 0x61 @ [0]"

text \<open>
  The local record defers its sizes: its compressed size is zero and bit 3 (\<open>0x0008\<close>) of
  its flags is set.
\<close>

definition sizes_deferred :: "LocalFileHeader \<Rightarrow> bool" where
  "sizes_deferred lh = (lh_CompressedSize lh = 0 \<and> bit (lh_Flags lh) 3)"

text \<open>
  A local record that defers its sizes, followed by two payload bytes, with its directory
  record and the header \<open>readLocalFileHeader\<close> decodes from it.
\<close>

definition streamed_entry :: "byte list" where
  "streamed_entry =
     put32 LocalFileHeaderSignature @ put16 20 @ put16 0x0008 @ put16 0 @ put16 0 @ put16 0
       @ put32 0 @ put32 0 @ put32 0 @ put16 1 @ put16 0 @ bytes_of ''a'' @ [0x42, 0x5A]"

definition streamed_cd :: CentralDirectoryHeader where
  "streamed_cd =
     \<lparr>cd_VersionMadeBy = 0x0314, cd_VersionNeeded = 20, cd_Flags = 0x0008,
      cd_CompressionMethod = 0, cd_LastModTime = 0, cd_LastModDate = 0, cd_CRC32 = 0,
      cd_CompressedSize = 2, cd_UncompressedSize = 2, cd_FilenameLength = 1,
      cd_ExtraFieldLength = 0, cd_CommentLength = 0, cd_DiskNumberStart = 0,
      cd_InternalAttributes = 0, cd_ExternalAttributes = 0, cd_LocalHeaderOffset = 0,
      cd_Filename = ''a'', cd_ExtraField = [], cd_Comment = []\<rparr>"

definition streamed_lh :: LocalFileHeader where
  "streamed_lh =
     \<lparr>lh_VersionNeeded = 20, lh_Flags = 0x0008, lh_CompressionMethod = 0, lh_LastModTime = 0,
      lh_LastModDate = 0, lh_CRC32 = 0, lh_CompressedSize = 0, lh_UncompressedSize = 0,
      lh_FilenameLength = 1, lh_ExtraFieldLength = 0, lh_Filename = ''a'', lh_ExtraField = []\<rparr>"



text \<open>
  The archive of a single entry, piece by piece: the 26 fixed bytes of its local record,
  the 42 fixed bytes of its directory record, and the 22 bytes of the trailer.
\<close>

definition lfixed :: "Time \<Rightarrow> string \<Rightarrow> byte list \<Rightarrow> byte list" where
  "lfixed now name d =
     put16 20 @ put16 (if isValidUTF8 name then 0 OR 0x0800 else 0) @ put16 0
     @ put16 (fst (timeToMSDos now)) @ put16 (snd (timeToMSDos now))
     @ put32 (ChecksumIEEE d) @ put32 (of_nat (length d)) @ put32 (of_nat (length d))
     @ put16 (of_nat (length name)) @ put16 0"

definition cfixed :: "Time \<Rightarrow> string \<Rightarrow> byte list \<Rightarrow> byte list" where
  "cfixed now name d =
     put16 0x0314 @ put16 20 @ put16 0x0800 @ put16 0
     @ put16 (fst (timeToMSDos now)) @ put16 (snd (timeToMSDos now))
     @ put32 (ChecksumIEEE d) @ put32 (of_nat (length d)) @ put32 (of_nat (length d))
     @ put16 (of_nat (length name)) @ put16 0 @ put16 0 @ put16 0 @ put16 0
     @ put32 0x81A40000 @ put32 0"

definition trailer :: "string \<Rightarrow> byte list \<Rightarrow> byte list" where
  "trailer name d =
     put32 EndOfCentralDirectorySignature @ put16 0 @ put16 0 @ put16 1 @ put16 1
     @ put32 (of_nat (46 + length name)) @ put32 (of_nat (30 + length name + length d)) @ put16 0"









section \<open>Properties\<close>

subsection \<open>Writes to the sink\<close>






subsection \<open>The shape of \<open>AddFile\<close>\<close>






subsection \<open>C6: what \<open>AddFile\<close> rejects\<close>



subsection \<open>C4: the packed timestamp\<close>

lemma small_no_bit:
  fixes m :: int
  assumes "0 \<le> m" "m < 2 ^ k" "k \<le> n"
  shows "\<not> bit m n"
proof -
  have "take_bit k m = m" using assms by (simp add: take_bit_int_eq_self)
  then have "bit m n = bit (take_bit k m) n" by simp
  also have "\<dots> = False" using assms by (simp add: bit_take_bit_iff)
  finally show ?thesis by simp
qed

lemma unat_word_of_small:
  fixes a :: int
  assumes "0 \<le> a" "a < 2 ^ k" "k \<le> 16"
  shows "unat (word_of_int a :: uint16) = nat a"
proof -
  have "(2::int) ^ k \<le> 2 ^ 16" using assms(3) by (intro power_increasing) auto
  then have "a < 2 ^ 16" using assms(2) by linarith
  then show ?thesis using assms(1)
    by (simp add: unat_eq_nat_uint uint_word_of_int take_bit_eq_mod)
qed

lemma pack3_high:
  fixes a b c :: int
  assumes a: "0 \<le> a" "a < 2 ^ (16 - (p + q))" and b: "0 \<le> b" "b < 2 ^ p"
    and c: "0 \<le> c" "c < 2 ^ q" and pq: "p + q \<le> 16"
  shows "unat (drop_bit (p + q) (word_of_int (push_bit (p + q) a OR push_bit q b OR c) :: uint16)) = nat a"
proof -
  have "drop_bit (p + q) (word_of_int (push_bit (p + q) a OR push_bit q b OR c) :: uint16) = word_of_int a"
  proof (rule bit_word_eqI)
    fix n assume n: "n < LENGTH(16)"
    have nb: "\<not> bit b (n + p)" using small_no_bit[OF b, of "n + p"] by simp
    have nc: "\<not> bit c (n + (p + q))" using small_no_bit[OF c, of "n + (p + q)"] by simp
    have na: "bit a n \<Longrightarrow> n + (p + q) < 16"
      using small_no_bit[OF a, of n] pq by (cases "n + (p + q) < 16") auto
    show "bit (drop_bit (p + q) (word_of_int (push_bit (p + q) a OR push_bit q b OR c) :: uint16)) n
        = bit (word_of_int a :: uint16) n"
      using n nb nc na by (auto simp: bit_simps add.commute add.left_commute)
  qed
  then show ?thesis using unat_word_of_small[OF a] by simp
qed

lemma pack3_mid:
  fixes a b c :: int
  assumes b: "0 \<le> b" "b < 2 ^ p" and c: "0 \<le> c" "c < 2 ^ q" and pq: "p + q \<le> 16"
  shows "unat (take_bit p (drop_bit q (word_of_int (push_bit (p + q) a OR push_bit q b OR c) :: uint16))) = nat b"
proof -
  have "take_bit p (drop_bit q (word_of_int (push_bit (p + q) a OR push_bit q b OR c) :: uint16)) = word_of_int b"
  proof (rule bit_word_eqI)
    fix n assume n: "n < LENGTH(16)"
    have nc: "\<not> bit c (n + q)" using small_no_bit[OF c, of "n + q"] by simp
    have nb: "bit b n \<Longrightarrow> n < p"
      using small_no_bit[OF b, of n] by (cases "n < p") auto
    show "bit (take_bit p (drop_bit q (word_of_int (push_bit (p + q) a OR push_bit q b OR c) :: uint16))) n
        = bit (word_of_int b :: uint16) n"
      using n nb nc pq by (auto simp: bit_simps add.commute add.left_commute)
  qed
  then show ?thesis using unat_word_of_small[OF b] pq by simp
qed

lemma pack3_low:
  fixes a b c :: int
  assumes c: "0 \<le> c" "c < 2 ^ q" and pq: "p + q \<le> 16"
  shows "unat (take_bit q (word_of_int (push_bit (p + q) a OR push_bit q b OR c) :: uint16)) = nat c"
proof -
  have "take_bit q (word_of_int (push_bit (p + q) a OR push_bit q b OR c) :: uint16) = word_of_int c"
  proof (rule bit_word_eqI)
    fix n assume n: "n < LENGTH(16)"
    have nc: "bit c n \<Longrightarrow> n < q"
      using small_no_bit[OF c, of n] by (cases "n < q") auto
    show "bit (take_bit q (word_of_int (push_bit (p + q) a OR push_bit q b OR c) :: uint16)) n
        = bit (word_of_int c :: uint16) n"
      using n nc pq by (auto simp: bit_simps add.commute add.left_commute)
  qed
  then show ?thesis using unat_word_of_small[OF c] pq by simp
qed

text \<open>
  C4, as stated, fails for a year that does not fit the 7-bit field: on 1 January 2108
  the year field of the date word is 0, not \<open>2108 - 1980 = 128\<close>.
\<close>

theorem timeToMSDos_year_2108:
  "calendar newyear2108
   \<and> year_field (snd (timeToMSDos newyear2108)) \<noteq> nat (Year newyear2108 - 1980)"
  by (simp add: timeToMSDos_def year_field_def newyear2108_def calendar_def)

text \<open>
  C4, amended. For every calendar timestamp whose year is at most 2107, the date word
  holds \<open>year - 1980\<close> in its top 7 bits (0 for a year before 1980), the month in the next
  4 bits and the day in the low 5 bits; the time word holds the hour in its top 5 bits,
  the minute in the next 6 bits and the seconds halved in the low 5 bits.
\<close>

theorem timeToMSDos_packs:
  assumes "calendar t" and "Year t \<le> 2107"
  shows "year_field (snd (timeToMSDos t)) = (if Year t < 1980 then 0 else nat (Year t - 1980))
    \<and> month_field (snd (timeToMSDos t)) = Month t
    \<and> day_field (snd (timeToMSDos t)) = Day t
    \<and> hour_field (fst (timeToMSDos t)) = Hour t
    \<and> minute_field (fst (timeToMSDos t)) = Minute t
    \<and> second_field (fst (timeToMSDos t)) = Second t div 2"
proof -
  define y where "y = (if Year t - 1980 < 0 then 0 else Year t - 1980)"
  have y: "0 \<le> y" "y < 2 ^ (16 - (4 + 5))" using assms(2) by (auto simp: y_def)
  have m: "0 \<le> int (Month t)" "int (Month t) < 2 ^ 4" using assms(1) by (auto simp: calendar_def)
  have d: "0 \<le> int (Day t)" "int (Day t) < 2 ^ 5" using assms(1) by (auto simp: calendar_def)
  have h: "0 \<le> int (Hour t)" "int (Hour t) < 2 ^ (16 - (6 + 5))" using assms(1) by (auto simp: calendar_def)
  have mi: "0 \<le> int (Minute t)" "int (Minute t) < 2 ^ 6" using assms(1) by (auto simp: calendar_def)
  have s: "0 \<le> int (Second t div 2)" "int (Second t div 2) < 2 ^ 5" using assms(1) by (auto simp: calendar_def)
  have date: "snd (timeToMSDos t) = word_of_int (push_bit (4 + 5) y OR push_bit 5 (int (Month t)) OR int (Day t))"
    by (simp add: timeToMSDos_def Let_def y_def)
  have time: "fst (timeToMSDos t) = word_of_int (push_bit (6 + 5) (int (Hour t)) OR push_bit 5 (int (Minute t)) OR int (Second t div 2))"
    by (simp add: timeToMSDos_def Let_def)
  have "year_field (snd (timeToMSDos t)) = (if Year t < 1980 then 0 else nat (Year t - 1980))"
    unfolding year_field_def date using pack3_high[OF y m d] by (simp add: y_def)
  moreover have "month_field (snd (timeToMSDos t)) = Month t"
    unfolding month_field_def date using pack3_mid[OF m d, of y] by simp
  moreover have "day_field (snd (timeToMSDos t)) = Day t"
    unfolding day_field_def date using pack3_low[OF d, of 4 y "int (Month t)"] by simp
  moreover have "hour_field (fst (timeToMSDos t)) = Hour t"
    unfolding hour_field_def time using pack3_high[OF h mi s] by simp
  moreover have "minute_field (fst (timeToMSDos t)) = Minute t"
    unfolding minute_field_def time using pack3_mid[OF mi s, of "int (Hour t)"] by simp
  moreover have "second_field (fst (timeToMSDos t)) = Second t div 2"
    unfolding second_field_def time using pack3_low[OF s, of 6 "int (Hour t)" "int (Minute t)"] by simp
  ultimately show ?thesis by simp
qed

theorem timeToMSDos_packs_witness:
  "calendar xmas \<and> Year xmas \<le> 2107
   \<and> year_field (snd (timeToMSDos xmas)) = 43
   \<and> month_field (snd (timeToMSDos xmas)) = 12
   \<and> day_field (snd (timeToMSDos xmas)) = 25
   \<and> hour_field (fst (timeToMSDos xmas)) = 14
   \<and> minute_field (fst (timeToMSDos xmas)) = 30
   \<and> second_field (fst (timeToMSDos xmas)) = 22"
proof -
  have h: "calendar xmas" "Year xmas \<le> 2107" by (simp_all add: calendar_def xmas_def)
  show ?thesis using h timeToMSDos_packs[OF h] by (simp add: xmas_def)
qed

subsection \<open>C10: the running offset\<close>








subsection \<open>C9: entries under \<open>__MACOSX/\<close>\<close>

lemma read_entries_skips:
  "read_entries inflate f off n = Inr outs \<Longrightarrow>
     \<forall>out \<in> set outs. is_skipped out = HasPrefix (outcome_name out) ''__MACOSX/''"
proof (induction n arbitrary: f off outs)
  case 0
  then show ?case by simp
next
  case (Suc n)
  obtain r f1 where rc: "readCentralDirectoryEntry f off = (r, f1)"
    by (cases "readCentralDirectoryEntry f off")
  with Suc.prems obtain cde next_off where r: "r = Inr (cde, next_off)"
    by (cases r) auto
  define step where "step =
     (if \<not> HasPrefix (cd_Filename cde) ''__MACOSX/''
      then (case extractFile inflate f1 cde of
              (Inl e, f2) \<Rightarrow> (ExtractError (cd_Filename cde) e, f2)
            | (Inr data, f2) \<Rightarrow> (Extracted (cd_Filename cde) data, f2))
      else (Skipping (cd_Filename cde), f1))"
  obtain out f2 where st: "step = (out, f2)" by (cases step)
  have out: "is_skipped out = HasPrefix (outcome_name out) ''__MACOSX/''"
    using st unfolding step_def
    by (auto split: if_splits prod.splits sum.splits)
  from Suc.prems obtain rest where rest: "read_entries inflate f2 next_off n = Inr rest"
    and outs: "outs = out # rest"
    using rc r st unfolding step_def
    by (auto split: sum.splits prod.splits if_splits)
  from Suc.IH[OF rest] out outs show ?case by simp
qed

text \<open>
  C9. When \<open>ReadZip\<close> runs to its end, an entry it reports was skipped exactly when its
  name begins with \<open>__MACOSX/\<close>: no such entry is extracted, with or without an error,
  and no bytes are produced for it.
\<close>

theorem ReadZip_skips_macosx:
  "ReadZip inflate f = Inr outs \<Longrightarrow>
     \<forall>out \<in> set outs. is_skipped out = HasPrefix (outcome_name out) ''__MACOSX/''"
  unfolding ReadZip_def
  by (auto split: prod.splits sum.splits dest: read_entries_skips)

lemmas eval_defs = archive_of_def Close_def NewZipWriter_def buffer_def Write_def AddFile_def
  put16_def put32_def get16_def get32_def Let_def bytes_of_def string_of_def
  LocalFileHeaderSignature_def CentralDirectorySignature_def EndOfCentralDirectorySignature_def
  isValidUTF8_def cont_def xmas_def timeToMSDos_def
  findEOCD_def parseEOCD_def readCentralDirectoryEntry_def readLocalFileHeader_def
  extractFile_def reconcileSizes_def ReadZip_def EOCDMinSize_def
  Seek_def Read_def binary_Read_def LastIndex_def HasPrefix_def

lemma read_entries_numeral:
  "read_entries inflate f off (numeral k) = read_entries inflate f off (Suc (pred_numeral k))"
  by (simp only: numeral_eq_Suc)

lemma mac_read: "ReadZip inflate (archive_of mac_calls) = Inr [Skipping ''__MACOSX/._a'', Extracted ''a'' [4, 5]]"
  by (simp add: mac_calls_def eval_defs read_entries_numeral char_of_eq_iff)

theorem ReadZip_skips_macosx_witness:
  "ReadZip (\<lambda>b. Inl ErrCorruptInput) (archive_of mac_calls)
      = Inr [Skipping ''__MACOSX/._a'', Extracted ''a'' [4, 5]]
   \<and> HasPrefix ''__MACOSX/._a'' ''__MACOSX/'' \<and> \<not> HasPrefix ''a'' ''__MACOSX/''"
  using ReadZip_skips_macosx[OF mac_read[of "\<lambda>b. Inl ErrCorruptInput"]] mac_read[of "\<lambda>b. Inl ErrCorruptInput"]
  by simp

subsection \<open>C2: the trailer at offset 0\<close>

text \<open>
  C2. \<open>findEOCD\<close> takes the trailer as found only when \<open>sigPos > 0\<close>. Closing a new
  writer gives the 22-byte archive that is the trailer alone, with entry count 0 and
  directory size 0; the signature is at index 0 of the window, \<open>findEOCD\<close> answers that
  it was not found, and \<open>ReadZip\<close> panics with that error.
\<close>

theorem empty_archive_not_found:
  "fst (Close (NewZipWriter buffer)) = None
   \<and> content (archive_of []) = put32 EndOfCentralDirectorySignature @ put16 0 @ put16 0
         @ put16 0 @ put16 0 @ put32 0 @ put32 0 @ put16 0
   \<and> LastIndex (content (archive_of [])) [0x50, 0x4b, 0x05, 0x06] = 0
   \<and> fst (findEOCD (archive_of [])) = Inl ErrEOCDNotFound
   \<and> ReadZip inflate (archive_of []) = Inl ErrEOCDNotFound"
  by (simp add: eval_defs)

subsection \<open>C7: the UTF-8 flag in the two records\<close>

text \<open>
  C7. \<open>AddFile\<close> writes the computed flags into the local record and keeps the constant
  \<open>0x0800\<close> in the record for the directory. For the name \<open>0xFF\<close>, which is not valid
  UTF-8, the local record read back has flags 0 and the directory record has flags
  \<open>0x0800\<close>.
\<close>

theorem utf8_flag_differs:
  "\<not> isValidUTF8 [CHR 0xFF]
   \<and> fst (add_files (NewZipWriter buffer) latin1_calls) = None
   \<and> map_sum id (lh_Flags \<circ> fst) (fst (readLocalFileHeader (archive_of latin1_calls) 0)) = Inr 0
   \<and> map_sum id (cd_Flags \<circ> fst) (fst (readCentralDirectoryEntry (archive_of latin1_calls) 31)) = Inr 0x0800"
  by (simp add: latin1_calls_def eval_defs)

subsection \<open>C3: dispatch on the compression method\<close>

text \<open>
  C3. \<open>extractFile\<close> tests the method for 8 and returns the bytes as read in every other
  case. For an entry with compression method 12, \<open>ReadZip\<close> reports it extracted, with
  the raw bytes.
\<close>

theorem method12_returns_bytes:
  "ReadZip inflate \<lparr>content = method12_archive, cursor = 0\<rparr> = Inr [Extracted ''a'' [0x42, 0x5A]]"
  by (simp add: method12_archive_def eval_defs read_entries_numeral char_of_eq_iff)

subsection \<open>C5: the offset of the next directory record\<close>

text \<open>
  C5. \<open>readCentralDirectoryEntry\<close> adds the three lengths as \<open>uint16\<close> before it widens
  the sum. For the record of 46 + 65536 bytes at offset 0 with name length 65535 and
  extra length 1, the next offset it returns is 46.
\<close>

theorem next_offset_wraps:
  "length long_record = 46 + 65535 + 1
   \<and> map_sum id (\<lambda>r. (cd_FilenameLength (fst r), cd_ExtraFieldLength (fst r), cd_CommentLength (fst r), snd r))
        (fst (readCentralDirectoryEntry \<lparr>content = long_record, cursor = 0\<rparr> 0))
      = Inr (0xFFFF, 1, 0, 46)"
  by (simp add: long_record_def eval_defs)

subsection \<open>C8: which sizes the materializer uses\<close>

lemma flag_0008: "((w :: uint16) AND 0x0008 \<noteq> 0) = bit w 3"
proof -
  have "(w AND 0x0008 = 0) = (\<not> bit w 3)"
  proof
    assume "w AND 0x0008 = 0"
    then have "\<not> bit (w AND 0x0008) 3" by simp
    then show "\<not> bit w 3" by (simp add: bit_simps)
  next
    assume nb: "\<not> bit w 3"
    show "w AND 0x0008 = 0"
    proof (rule bit_word_eqI)
      fix n assume "n < LENGTH(16)"
      have "bit (8 :: uint16) n = (n = 3)"
        using bit_push_bit_iff[of 3 "1 :: uint16" n] by (auto simp: bit_simps)
      then show "bit (w AND 0x0008) n = bit (0 :: uint16) n" using nb by (auto simp: bit_simps)
    qed
  qed
  then show ?thesis by simp
qed

lemma reconcileSizes_eq:
  "reconcileSizes lh cd =
     lh\<lparr>lh_CompressedSize := (if sizes_deferred lh then cd_CompressedSize cd else lh_CompressedSize lh),
        lh_UncompressedSize := (if sizes_deferred lh then cd_UncompressedSize cd else lh_UncompressedSize lh)\<rparr>"
  by (simp add: reconcileSizes_def sizes_deferred_def flag_0008)

lemma Read_length: "Read f n = (Inr b, f') \<Longrightarrow> length b = n"
  by (auto simp: Read_def Let_def split: if_splits)

text \<open>
  C8. Let \<open>extractFile\<close> have read the local record \<open>lh\<close> for the directory record
  \<open>cd\<close>. The header it goes on with is \<open>lh\<close> with both sizes taken from \<open>cd\<close> when
  \<open>lh\<close> defers its sizes, and \<open>lh\<close> itself otherwise; no other field changes. What
  it returns shows the choice: stored bytes have the length of the compressed size
  chosen, and inflated bytes the length of the uncompressed size chosen.
\<close>

theorem extractFile_sizes:
  assumes "readLocalFileHeader f (int (unat (cd_LocalHeaderOffset cd))) = (Inr (lh, dataOffset), f1)"
  shows "reconcileSizes lh cd =
     lh\<lparr>lh_CompressedSize := (if sizes_deferred lh then cd_CompressedSize cd else lh_CompressedSize lh),
        lh_UncompressedSize := (if sizes_deferred lh then cd_UncompressedSize cd else lh_UncompressedSize lh)\<rparr>
   \<and> (\<forall>data. fst (extractFile inflate f cd) = Inr data \<longrightarrow>
         length data = unat
           (if lh_CompressionMethod lh = 8
            then (if sizes_deferred lh then cd_UncompressedSize cd else lh_UncompressedSize lh)
            else (if sizes_deferred lh then cd_CompressedSize cd else lh_CompressedSize lh)))"
proof (intro conjI allI impI)
  show "reconcileSizes lh cd =
     lh\<lparr>lh_CompressedSize := (if sizes_deferred lh then cd_CompressedSize cd else lh_CompressedSize lh),
        lh_UncompressedSize := (if sizes_deferred lh then cd_UncompressedSize cd else lh_UncompressedSize lh)\<rparr>"
    by (rule reconcileSizes_eq)
next
  fix data assume ok: "fst (extractFile inflate f cd) = Inr data"
  let ?lh = "reconcileSizes lh cd"
  let ?f2 = "snd (Seek f1 dataOffset)"
  obtain r f3 where rd: "Read ?f2 (unat (lh_CompressedSize ?lh)) = (r, f3)"
    by (cases "Read ?f2 (unat (lh_CompressedSize ?lh))")
  from ok obtain compressedData where r: "r = Inr compressedData"
    using assms rd by (cases r) (auto simp: extractFile_def Let_def)
  have len: "length compressedData = unat (lh_CompressedSize ?lh)"
    using Read_length[OF rd[unfolded r]] .
  have m: "lh_CompressionMethod ?lh = lh_CompressionMethod lh" by (simp add: reconcileSizes_eq)
  show "length data = unat
           (if lh_CompressionMethod lh = 8
            then (if sizes_deferred lh then cd_UncompressedSize cd else lh_UncompressedSize lh)
            else (if sizes_deferred lh then cd_CompressedSize cd else lh_CompressedSize lh))"
  proof (cases "lh_CompressionMethod lh = 8")
    case True
    with ok assms rd r m have "length data = unat (lh_UncompressedSize ?lh)"
      by (auto simp: extractFile_def Let_def split: sum.splits if_splits)
    with True show ?thesis by (simp add: reconcileSizes_eq)
  next
    case False
    with ok assms rd r m have "data = compressedData"
      by (auto simp: extractFile_def Let_def split: sum.splits if_splits)
    with False len show ?thesis by (simp add: reconcileSizes_eq)
  qed
qed

lemma streamed_header:
  "readLocalFileHeader \<lparr>content = streamed_entry, cursor = 0\<rparr> (int (unat (cd_LocalHeaderOffset streamed_cd)))
     = (Inr (streamed_lh, 31), \<lparr>content = streamed_entry, cursor = 31\<rparr>)"
  by (simp add: streamed_entry_def streamed_cd_def streamed_lh_def eval_defs char_of_eq_iff)

lemma streamed_extract:
  "fst (extractFile inflate \<lparr>content = streamed_entry, cursor = 0\<rparr> streamed_cd) = Inr [0x42, 0x5A]"
  by (simp add: streamed_entry_def streamed_cd_def eval_defs char_of_eq_iff)

theorem extractFile_sizes_witness:
  "readLocalFileHeader \<lparr>content = streamed_entry, cursor = 0\<rparr> (int (unat (cd_LocalHeaderOffset streamed_cd)))
     = (Inr (streamed_lh, 31), \<lparr>content = streamed_entry, cursor = 31\<rparr>)
   \<and> sizes_deferred streamed_lh
   \<and> lh_CompressedSize (reconcileSizes streamed_lh streamed_cd) = 2
   \<and> fst (extractFile (\<lambda>b. Inl ErrCorruptInput) \<lparr>content = streamed_entry, cursor = 0\<rparr> streamed_cd) = Inr [0x42, 0x5A]
   \<and> length [0x42, 0x5A :: byte] = unat (cd_CompressedSize streamed_cd)"
  using extractFile_sizes[OF streamed_header, of "\<lambda>b. Inl ErrCorruptInput"] streamed_header streamed_extract
  by (simp add: sizes_deferred_def streamed_lh_def streamed_cd_def)

subsection \<open>C1: the archive of one entry\<close>







lemma length_put [simp]: "length (put16 v) = 2" "length (put32 w) = 4"
  by (simp_all add: put16_def put32_def)

lemma length_parts [simp]:
  "length (lfixed now name d) = 26" "length (cfixed now name d) = 42" "length (trailer name d) = 22"
  "length (bytes_of name) = length name"
  by (simp_all add: lfixed_def cfixed_def trailer_def bytes_of_def)

lemma get16_put16 [simp]:
  "(ucast (ucast v :: byte) :: uint16) OR push_bit 8 (ucast (ucast (drop_bit 8 v) :: byte)) = v"
proof (rule bit_word_eqI)
  fix n assume "n < LENGTH(16)"
  then show "bit ((ucast (ucast v :: byte) :: uint16) OR push_bit 8 (ucast (ucast (drop_bit 8 v) :: byte))) n = bit v n"
    by (cases "n < 8") (auto simp: bit_simps)
qed

lemma get32_put32 [simp]:
  "(ucast (ucast v :: byte) :: uint32) OR push_bit 8 (ucast (ucast (drop_bit 8 v) :: byte))
   OR push_bit 16 (ucast (ucast (drop_bit 16 v) :: byte)) OR push_bit 24 (ucast (ucast (drop_bit 24 v) :: byte)) = v"
proof (rule bit_word_eqI)
  fix n assume n: "n < LENGTH(32)"
  consider "n < 8" | "8 \<le> n" "n < 16" | "16 \<le> n" "n < 24" | "24 \<le> n" by linarith
  then show "bit ((ucast (ucast v :: byte) :: uint32) OR push_bit 8 (ucast (ucast (drop_bit 8 v) :: byte))
   OR push_bit 16 (ucast (ucast (drop_bit 16 v) :: byte)) OR push_bit 24 (ucast (ucast (drop_bit 24 v) :: byte))) n = bit v n"
    using n by cases (auto simp: bit_simps)
qed

lemma string_of_bytes_of [simp]: "string_of (bytes_of s) = s"
proof -
  have "char_of (unat (of_char c :: byte)) = c" for c
  proof -
    have "unat (of_char c :: byte) = unat (of_nat (of_char c) :: byte)"
      by (simp only: of_nat_of_char)
    also have "\<dots> = of_char c mod 256"
      by (simp add: unat_of_nat take_bit_eq_mod)
    finally show ?thesis by simp
  qed
  then show ?thesis by (simp add: string_of_def bytes_of_def comp_def)
qed



subsection \<open>C1: reading the records back\<close>

















subsection \<open>C1: locating the trailer\<close>







subsection \<open>C1: a directory offset that reads as the trailer signature\<close>







end
